theory Spec2Isabelle
  imports Complex_Main
begin

section \<open>Strings as the activities use them\<close>

text \<open>
  Go strings are byte sequences; \<^typ>\<open>string\<close> is a list of bytes. The three library
  calls of \<open>sanitize\<close> in \<open>activities/activities.go\<close> are modelled on bytes. This is
  exact for the regular expression \<open>[^a-zA-Z0-9]+\<close>: every byte of a multi-byte rune is
  outside the class, so a run of runes outside the class is a run of bytes outside it.
\<close>

definition isAlnum :: "char \<Rightarrow> bool" where
  "isAlnum c =
     (c \<in> set ''abcdefghijklmnopqrstuvwxyzABCDEFGHIJKLMNOPQRSTUVWXYZ0123456789'')"

text \<open>
  \<open>regexp.MustCompile(`[^a-zA-Z0-9]+`).ReplaceAllString(s, repl)\<close>: each maximal run
  of bytes outside the class is replaced by \<open>repl\<close>, everything else is kept.
\<close>

function ReplaceAllString :: "string \<Rightarrow> string \<Rightarrow> string" where
  "ReplaceAllString [] repl = []"
| "ReplaceAllString (c # cs) repl =
     (if isAlnum c then c # ReplaceAllString cs repl
      else repl @ ReplaceAllString (dropWhile (\<lambda>x. \<not> isAlnum x) cs) repl)"
  by pat_completeness auto
termination
  by (relation "measure (\<lambda>(s, repl). length s)")
     (auto simp: length_dropWhile_le less_Suc_eq_le)

text \<open>\<open>strings.Trim(s, cutset)\<close>: leading and trailing bytes of the cutset removed.\<close>

definition Trim :: "string \<Rightarrow> string \<Rightarrow> string" where
  "Trim s cutset =
     rev (dropWhile (\<lambda>c. c \<in> set cutset) (rev (dropWhile (\<lambda>c. c \<in> set cutset) s)))"

text \<open>
  \<open>strings.ToLower\<close> on ASCII: the letters A to Z are mapped to a to z, every other
  byte is kept. \<open>sanitize\<close> applies it to the output of the two calls above, which
  holds only ASCII letters, digits and hyphens.
\<close>

definition toLowerByte :: "char \<Rightarrow> char" where
  "toLowerByte c =
     (case map_of (zip ''ABCDEFGHIJKLMNOPQRSTUVWXYZ'' ''abcdefghijklmnopqrstuvwxyz'') c of
        Some l \<Rightarrow> l
      | None \<Rightarrow> c)"

definition ToLower :: "string \<Rightarrow> string" where
  "ToLower s = map toLowerByte s"

text \<open>The closure \<open>sanitize\<close> of \<open>generateReleaseName\<close>.\<close>

definition sanitize :: "string \<Rightarrow> string" where
  "sanitize s = ToLower (Trim (ReplaceAllString s ''-'') ''-'')"

text \<open>The verb \<open>%d\<close> of \<open>fmt.Sprintf\<close>: the decimal digits, with a sign when negative.\<close>

definition digitChar :: "nat \<Rightarrow> char" where
  "digitChar n = ''0123456789'' ! (n mod 10)"

fun formatNat :: "nat \<Rightarrow> string" where
  "formatNat n =
     (if n < 10 then [digitChar n] else formatNat (n div 10) @ [digitChar n])"

declare formatNat.simps [simp del]

definition Sprintf_d :: "int \<Rightarrow> string" where
  "Sprintf_d i = (if i < 0 then CHR ''-'' # formatNat (nat (- i)) else formatNat (nat i))"

section \<open>The request and the release name\<close>

text \<open>
  \<open>HelmUndeployRequest\<close> as \<open>activities/activities.go\<close> declares it. \<open>PRNumber\<close> is a
  \<open>*int\<close>: \<open>None\<close> is nil. \<open>Timeout\<close> is a \<open>time.Duration\<close>, a count of nanoseconds.
\<close>

record HelmUndeployRequest =
  GitHubOrg :: string
  RepoName :: string
  BranchName :: string
  PRNumber :: "int option"
  Wait :: bool
  Timeout :: int

definition generateReleaseName :: "'a HelmUndeployRequest_scheme \<Rightarrow> string" where
  "generateReleaseName request =
     (let repoName = sanitize (RepoName request);
          branchName = sanitize (BranchName request)
      in case PRNumber request of
           Some n \<Rightarrow> repoName @ ''-pr-'' @ Sprintf_d n
         | None \<Rightarrow>
             if branchName = ''main'' \<or> branchName = ''master'' then repoName
             else repoName @ ''-'' @ branchName)"

section \<open>The Validate activity\<close>

text \<open>
  \<open>ValidateReleaseResponse\<close> as \<open>activities/activities.go\<close> declares it; a
  \<open>time.Time\<close> is an integer timestamp, the zero \<open>time.Time\<close> is 0.
\<close>

record ValidateReleaseResponse =
  Exists :: bool
  Status :: string
  Version :: int
  UpdatedTime :: int

text \<open>The receiver \<open>Activities\<close>, without its logger.\<close>

record Activities =
  kubeconfig :: string
  namespace :: string

text \<open>
  The Release Store as the activity sees it. A Helm \<open>action.Configuration\<close> is the
  triple it is initialised from; a \<open>release.Release\<close> carries the fields the activity
  reads: \<open>Name\<close>, \<open>Info.Status.String()\<close>, \<open>Version\<close> and \<open>Info.LastDeployed.Time\<close>.
\<close>

record Configuration =
  KubeConfig :: string
  ConfigNamespace :: string
  HelmDriver :: string

record Release =
  Name :: string
  InfoStatus :: string
  ReleaseVersion :: int
  LastDeployed :: int

text \<open>
  What the activity reads from outside the program: the two environment lookups of
  \<open>getActionConfig\<close> (the default path is
  \<open>filepath.Join(os.Getenv("HOME"), ".kube", "config")\<close>), the error of
  \<open>actionConfig.Init\<close> if any, and the result of \<open>listAction.Run()\<close> for a
  configuration, a \<open>Filter\<close> and the \<open>Deployed\<close> flag.
\<close>

record ReleaseStore =
  defaultKubeconfig :: string
  envHelmDriver :: string
  Init :: "Configuration \<Rightarrow> string option"
  ListRun :: "Configuration \<Rightarrow> string \<Rightarrow> bool \<Rightarrow> string + Release list"

definition getActionConfig ::
  "Activities \<Rightarrow> ReleaseStore \<Rightarrow> string \<Rightarrow> string + Configuration" where
  "getActionConfig a store ns =
     (let kubeconfigPath =
            (if kubeconfig a = [] then defaultKubeconfig store else kubeconfig a);
          actionConfig =
            \<lparr>KubeConfig = kubeconfigPath, ConfigNamespace = ns,
             HelmDriver = envHelmDriver store\<rparr>
      in case Init store actionConfig of
           Some err \<Rightarrow> Inl err
         | None \<Rightarrow> Inr actionConfig)"

text \<open>
  The loop \<open>for _, release := range releases\<close> of \<open>ValidateReleaseActivity\<close> with the
  return that follows it: the first release whose name equals the release name decides.
\<close>

fun rangeReleases :: "Release list \<Rightarrow> string \<Rightarrow> ValidateReleaseResponse" where
  "rangeReleases [] releaseName =
     \<lparr>Exists = False, Status = [], Version = 0, UpdatedTime = 0\<rparr>"
| "rangeReleases (release # releases) releaseName =
     (if Name release = releaseName
      then \<lparr>Exists = True, Status = InfoStatus release,
            Version = ReleaseVersion release, UpdatedTime = LastDeployed release\<rparr>
      else rangeReleases releases releaseName)"

definition ValidateReleaseActivity ::
  "Activities \<Rightarrow> ReleaseStore \<Rightarrow> 'a HelmUndeployRequest_scheme
     \<Rightarrow> string + ValidateReleaseResponse" where
  "ValidateReleaseActivity a store request =
     (let releaseName = generateReleaseName request
      in case getActionConfig a store (namespace a) of
           Inl err \<Rightarrow> Inl (''failed to get action config: '' @ err)
         | Inr actionConfig \<Rightarrow>
             (case ListRun store actionConfig releaseName True of
                Inl err \<Rightarrow> Inl (''failed to list releases: '' @ err)
              | Inr releases \<Rightarrow> Inr (rangeReleases releases releaseName)))"

section \<open>The workflow\<close>

text \<open>A \<open>time.Duration\<close> counts nanoseconds.\<close>

definition Second :: int where
  "Second = 1000000000"

definition Minute :: int where
  "Minute = 60 * Second"

record RetryPolicy =
  InitialInterval :: int
  BackoffCoefficient :: real
  MaximumInterval :: int
  MaximumAttempts :: int

record ActivityOptions =
  StartToCloseTimeout :: int
  RetryPolicy :: RetryPolicy

text \<open>
  Modelled from the spec: \<open>workflows/workflow.go\<close> reads \<open>request.DryRun\<close> and
  \<open>validateResp.ReleaseName\<close>, two fields that the declarations in
  \<open>activities/activities.go\<close> do not have. The request of the workflow is the declared
  request extended by the flag \<open>dryRun\<close> of the spec's TeardownRequest, and the
  validation result that the workflow receives is the declared one extended by the
  name of the release it is about.
\<close>

record WorkflowRequest = HelmUndeployRequest +
  DryRun :: bool

record WorkflowValidateResponse = ValidateReleaseResponse +
  ReleaseName :: string

record UndeployReleaseResponse =
  Success :: bool
  Message :: string

record VerifyUndeployResponse =
  Verified :: bool
  ResourcesRemoved :: bool
  Message :: string

record HelmUndeployResponse =
  Success :: bool
  Message :: string
  Timestamp :: int

text \<open>
  What \<open>workflow.ExecuteActivity(ctx, name, request).Get(ctx, &resp)\<close> yields for each
  of the three activities once the Durable Execution Host has run it under the retry
  policy: \<open>Inl\<close> the error (as its \<open>Error()\<close> string) or \<open>Inr\<close> the response.
\<close>

record ActivityResults =
  validateResult :: "WorkflowRequest \<Rightarrow> string + WorkflowValidateResponse"
  undeployResult :: "WorkflowRequest \<Rightarrow> string + UndeployReleaseResponse"
  verifyResult :: "WorkflowRequest \<Rightarrow> string + VerifyUndeployResponse"

text \<open>
  The effects of a run: the activities handed to the host, in order, each with the
  activity options of the context it was scheduled in, and the log lines.
\<close>

record ActivityCall =
  activityName :: string
  activityOptions :: ActivityOptions
  activityInput :: WorkflowRequest

datatype Level = Info | Warn | Error

record Run =
  history :: "ActivityCall list"
  logs :: "(Level \<times> string) list"

definition ExecuteActivity ::
  "ActivityOptions \<Rightarrow> string \<Rightarrow> WorkflowRequest \<Rightarrow> Run \<Rightarrow> Run" where
  "ExecuteActivity ctx name request run =
     run\<lparr>history := history run @
       [\<lparr>activityName = name, activityOptions = ctx, activityInput = request\<rparr>]\<rparr>"

definition logger :: "Level \<Rightarrow> string \<Rightarrow> Run \<Rightarrow> Run" where
  "logger level msg run = run\<lparr>logs := logs run @ [(level, msg)]\<rparr>"

text \<open>
  \<open>HelmUndeployWorkflow\<close> of \<open>workflows/workflow.go\<close>. \<open>now\<close> is what \<open>time.Now()\<close>
  reads at the return; the result is the effects of the run, the response and the
  returned error (\<open>None\<close> is nil).
\<close>

definition HelmUndeployWorkflow ::
  "ActivityResults \<Rightarrow> int \<Rightarrow> WorkflowRequest
     \<Rightarrow> Run \<times> HelmUndeployResponse \<times> string option" where
  "HelmUndeployWorkflow host now request =
     (let run0 = logger Info ''Starting helm undeploy workflow''
                   \<lparr>history = [], logs = []\<rparr>;
          ao = \<lparr>StartToCloseTimeout = 10 * Minute,
                RetryPolicy = \<lparr>InitialInterval = Second, BackoffCoefficient = 2.0,
                               MaximumInterval = Minute, MaximumAttempts = 3\<rparr>\<rparr>;
          run1 = ExecuteActivity ao ''ValidateReleaseActivity'' request run0
      in case validateResult host request of
           Inl err \<Rightarrow>
             (logger Error ''Failed to validate release'' run1,
              \<lparr>HelmUndeployResponse.Success = False,
               HelmUndeployResponse.Message = ''Failed to validate release: '' @ err,
               Timestamp = now\<rparr>,
              Some err)
         | Inr validateResp \<Rightarrow>
             if \<not> Exists validateResp then
               (run1,
                \<lparr>HelmUndeployResponse.Success = False,
                 HelmUndeployResponse.Message =
                   (if DryRun request
                    then ''DRY-RUN: Release not found (would fail if executed)''
                    else ''Release not found''),
                 Timestamp = now\<rparr>,
                None)
             else if DryRun request then
               (logger Info ''DRY-RUN: Would undeploy release'' run1,
                \<lparr>HelmUndeployResponse.Success = True,
                 HelmUndeployResponse.Message =
                   ''DRY-RUN: Would undeploy release '' @ ReleaseName validateResp,
                 Timestamp = now\<rparr>,
                None)
             else
               (let run2 = ExecuteActivity ao ''UndeployReleaseActivity'' request run1
                in case undeployResult host request of
                     Inl err \<Rightarrow>
                       (logger Error ''Failed to undeploy release'' run2,
                        \<lparr>HelmUndeployResponse.Success = False,
                         HelmUndeployResponse.Message =
                           ''Failed to undeploy release: '' @ err,
                         Timestamp = now\<rparr>,
                        Some err)
                   | Inr undeployResp \<Rightarrow>
                       (let run3 =
                              (if Wait request \<and> UndeployReleaseResponse.Success undeployResp
                               then
                                 (let run_v = ExecuteActivity ao ''VerifyUndeployActivity''
                                                request run2
                                  in case verifyResult host request of
                                       Inl err \<Rightarrow>
                                         logger Warn ''Failed to verify undeploy'' run_v
                                     | Inr verifyResp \<Rightarrow> run_v)
                               else run2)
                        in (logger Info ''Helm undeploy workflow completed'' run3,
                            \<lparr>HelmUndeployResponse.Success =
                               UndeployReleaseResponse.Success undeployResp,
                             HelmUndeployResponse.Message =
                               UndeployReleaseResponse.Message undeployResp,
                             Timestamp = now\<rparr>,
                            None))))"

text \<open>The names of the activities a run handed to the host, in order.\<close>

definition invoked ::
  "Run \<times> HelmUndeployResponse \<times> string option \<Rightarrow> string list" where
  "invoked result = map activityName (history (fst result))"

definition outcome ::
  "Run \<times> HelmUndeployResponse \<times> string option \<Rightarrow> HelmUndeployResponse" where
  "outcome result = fst (snd result)"

definition returnedError ::
  "Run \<times> HelmUndeployResponse \<times> string option \<Rightarrow> string option" where
  "returnedError result = snd (snd result)"

text \<open>A host that delivers the same three results whatever the request is.\<close>

definition constantResults ::
  "string + WorkflowValidateResponse \<Rightarrow> string + UndeployReleaseResponse
     \<Rightarrow> string + VerifyUndeployResponse \<Rightarrow> ActivityResults" where
  "constantResults v u w =
     \<lparr>validateResult = (\<lambda>request. v), undeployResult = (\<lambda>request. u),
      verifyResult = (\<lambda>request. w)\<rparr>"

definition branchRequest :: WorkflowRequest where
  "branchRequest =
     \<lparr>GitHubOrg = ''acme'', RepoName = ''my-app'', BranchName = ''feature/X_1'',
      PRNumber = None, Wait = True, Timeout = 20 * Minute, DryRun = False\<rparr>"

definition deployedResponse :: WorkflowValidateResponse where
  "deployedResponse =
     \<lparr>Exists = True, Status = ''deployed'', Version = 3, UpdatedTime = 1700000000,
      ReleaseName = ''my-app-feature-x-1''\<rparr>"

definition notFoundResponse :: WorkflowValidateResponse where
  "notFoundResponse =
     \<lparr>Exists = False, Status = [], Version = 0, UpdatedTime = 0, ReleaseName = []\<rparr>"

definition uninstalledResponse :: UndeployReleaseResponse where
  "uninstalledResponse =
     \<lparr>UndeployReleaseResponse.Success = True,
      UndeployReleaseResponse.Message =
        ''Release my-app-feature-x-1 uninstalled. Status: ''\<rparr>"

text \<open>A store whose listing holds a neighbour of the release asked for.\<close>


definition exampleActivities :: Activities where
  "exampleActivities = \<lparr>kubeconfig = [], namespace = ''default''\<rparr>"

definition mainBranchRequest :: HelmUndeployRequest where
  "mainBranchRequest =
     \<lparr>GitHubOrg = ''acme'', RepoName = ''my-app'', BranchName = ''main'',
      PRNumber = None, Wait = True, Timeout = 0\<rparr>"

definition neighbourStore :: ReleaseStore where
  "neighbourStore =
     \<lparr>defaultKubeconfig = ''/root/.kube/config'', envHelmDriver = [],
      Init = (\<lambda>actionConfig. None),
      ListRun = (\<lambda>actionConfig filter deployed.
        Inr [\<lparr>Name = ''my-app-2'', InfoStatus = ''deployed'', ReleaseVersion = 1,
              LastDeployed = 1700000000\<rparr>])\<rparr>"

definition punctuationRequest :: WorkflowRequest where
  "punctuationRequest =
     \<lparr>GitHubOrg = ''acme'', RepoName = ''!!!'', BranchName = ''dev'',
      PRNumber = None, Wait = True, Timeout = 0, DryRun = False\<rparr>"

definition verifiedResponse :: VerifyUndeployResponse where
  "verifiedResponse =
     \<lparr>Verified = True, ResourcesRemoved = True,
      VerifyUndeployResponse.Message = ''Deployments: 0, Services: 0''\<rparr>"

section \<open>The client that starts a run\<close>

text \<open>
  The command-line flags of the client \<open>main\<close> that builds a request from the GitHub
  identifiers; the flags that only address the Temporal server are left out.
\<close>

record Flags =
  githubOrg :: string
  repoName :: string
  branchName :: string
  prNumber :: int
  wait :: bool
  timeout :: int
  workflowID :: string

text \<open>
  The request \<open>main\<close> builds, or \<open>Inl\<close> the message of \<open>logger.Fatal\<close> when a required
  flag is empty.
\<close>

definition mainRequest :: "Flags \<Rightarrow> string + HelmUndeployRequest" where
  "mainRequest flags =
     (if githubOrg flags = [] \<or> repoName flags = [] \<or> branchName flags = []
      then Inl ''GitHub org, repo name, and branch name are required''
      else
        (let prNumberPtr = (if prNumber flags > 0 then Some (prNumber flags) else None)
         in Inr \<lparr>GitHubOrg = githubOrg flags, RepoName = repoName flags,
                 BranchName = branchName flags, PRNumber = prNumberPtr,
                 Wait = wait flags, Timeout = timeout flags\<rparr>))"

text \<open>
  \<open>workflowOptions.ID\<close> as \<open>main\<close> sets it: the flag if given, else a name built from
  the raw identifiers and \<open>time.Now().Unix()\<close>.
\<close>

definition StartWorkflowOptionsID ::
  "Flags \<Rightarrow> 'a HelmUndeployRequest_scheme \<Rightarrow> int \<Rightarrow> string" where
  "StartWorkflowOptionsID flags request unixNow =
     (if workflowID flags \<noteq> [] then workflowID flags
      else case PRNumber request of
             Some n \<Rightarrow>
               ''helm-undeploy-'' @ GitHubOrg request @ ''-'' @ RepoName request
                 @ ''-pr-'' @ Sprintf_d n @ ''-'' @ Sprintf_d unixNow
           | None \<Rightarrow>
               ''helm-undeploy-'' @ GitHubOrg request @ ''-'' @ RepoName request
                 @ ''-'' @ BranchName request @ ''-'' @ Sprintf_d unixNow)"

text \<open>
  Modelled from the spec: the run admission of the Durable Execution Host, which is not
  code of this repository. "The hosting engine enforces uniqueness of the identity-derived
  run key": a start whose run key is held by a run in flight starts no second run.
  The runs in flight are listed with their run keys, oldest first.
\<close>

definition admit ::
  "(string \<times> HelmUndeployRequest) list \<Rightarrow> string \<Rightarrow> HelmUndeployRequest
     \<Rightarrow> (string \<times> HelmUndeployRequest) list" where
  "admit inflight runKey request =
     (if runKey \<in> set (map fst inflight) then inflight
      else inflight @ [(runKey, request)])"

text \<open>One start of the client at Unix time \<open>unixNow\<close> against the runs in flight.\<close>

definition startRun ::
  "(string \<times> HelmUndeployRequest) list \<Rightarrow> Flags \<Rightarrow> int
     \<Rightarrow> (string \<times> HelmUndeployRequest) list" where
  "startRun inflight flags unixNow =
     (case mainRequest flags of
        Inl fatal \<Rightarrow> inflight
      | Inr request \<Rightarrow>
          admit inflight (StartWorkflowOptionsID flags request unixNow) request)"

definition branchFlags :: Flags where
  "branchFlags =
     \<lparr>githubOrg = ''acme'', repoName = ''my-app'', branchName = ''feature/X_1'',
      prNumber = 0, wait = True, timeout = 5 * Minute, workflowID = []\<rparr>"

section \<open>The sanitization rule read as a rule on words\<close>

text \<open>
  A second reading of the sanitization rule, not from the code: the maximal runs of
  letters and digits of the input, each in lower case, joined by single hyphens.
\<close>

function alnumRuns :: "string \<Rightarrow> string list" where
  "alnumRuns s =
     (if dropWhile (\<lambda>c. \<not> isAlnum c) s = [] then []
      else takeWhile isAlnum (dropWhile (\<lambda>c. \<not> isAlnum c) s)
             # alnumRuns (dropWhile isAlnum (dropWhile (\<lambda>c. \<not> isAlnum c) s)))"
  by pat_completeness auto
termination
proof (relation "measure length")
  show "wf (measure length)"
    by simp
next
  fix s :: string
  assume nonempty: "dropWhile (\<lambda>c. \<not> isAlnum c) s \<noteq> []"
  then obtain c cs where t: "dropWhile (\<lambda>c. \<not> isAlnum c) s = c # cs"
    by (cases "dropWhile (\<lambda>c. \<not> isAlnum c) s") auto
  from hd_dropWhile [OF nonempty] t have "isAlnum c"
    by simp
  then have "length (dropWhile isAlnum (c # cs)) \<le> length cs"
    by (simp add: length_dropWhile_le)
  also have "length cs < length (c # cs)"
    by simp
  also have "length (c # cs) \<le> length s"
    using length_dropWhile_le [of "\<lambda>c. \<not> isAlnum c" s] t by simp
  finally show "(dropWhile isAlnum (dropWhile (\<lambda>c. \<not> isAlnum c) s), s) \<in> measure length"
    using t by simp
qed

declare alnumRuns.simps [simp del]

fun joinWith :: "string \<Rightarrow> string list \<Rightarrow> string" where
  "joinWith sep [] = []"
| "joinWith sep [w] = w"
| "joinWith sep (w # v # ws) = w @ sep @ joinWith sep (v # ws)"

definition specSanitize :: "string \<Rightarrow> string" where
  "specSanitize s = joinWith ''-'' (map ToLower (alnumRuns s))"

text \<open>The right half of \<open>Trim\<close> for the cutset of \<open>sanitize\<close>, a single hyphen.\<close>

definition trimRight :: "string \<Rightarrow> string" where
  "trimRight x = rev (dropWhile (\<lambda>c. c = CHR ''-'') (rev x))"

text \<open>
  The Validate result as the workflow receives it when \<open>ValidateReleaseActivity\<close> of
  \<open>activities/activities.go\<close> produced it: that response has no \<open>ReleaseName\<close>, so the
  field of the workflow's variable \<open>validateResp\<close> keeps the zero value of a Go string.
\<close>

definition deliverValidate :: "ValidateReleaseResponse \<Rightarrow> WorkflowValidateResponse" where
  "deliverValidate resp =
     \<lparr>Exists = Exists resp, Status = Status resp, Version = Version resp,
      UpdatedTime = UpdatedTime resp, ReleaseName = []\<rparr>"

text \<open>
  A host whose Validate result is what \<open>ValidateReleaseActivity\<close> returns against a
  store; the other two results are given.
\<close>

definition workerResults ::
  "Activities \<Rightarrow> ReleaseStore \<Rightarrow> string + UndeployReleaseResponse
     \<Rightarrow> string + VerifyUndeployResponse \<Rightarrow> ActivityResults" where
  "workerResults a store u w =
     \<lparr>validateResult =
        (\<lambda>request. case ValidateReleaseActivity a store request of
                      Inl err \<Rightarrow> Inl err
                    | Inr resp \<Rightarrow> Inr (deliverValidate resp)),
      undeployResult = (\<lambda>request. u),
      verifyResult = (\<lambda>request. w)\<rparr>"


definition emptyStore :: ReleaseStore where
  "emptyStore =
     \<lparr>defaultKubeconfig = ''/root/.kube/config'', envHelmDriver = [],
      Init = (\<lambda>actionConfig. None),
      ListRun = (\<lambda>actionConfig filter deployed. Inr [])\<rparr>"


section \<open>The verb for integers read as a decimal numeral\<close>

text \<open>
  A second reading of the verb \<open>%d\<close>, not from the code: the number that a string of
  decimal digits denotes.
\<close>

definition digitValue :: "char \<Rightarrow> nat" where
  "digitValue c =
     (case map_of (zip ''0123456789'' [0, 1, 2, 3, 4, 5, 6, 7, 8, 9]) c of
        Some d \<Rightarrow> d
      | None \<Rightarrow> 0)"

definition decimalValue :: "string \<Rightarrow> nat" where
  "decimalValue s = foldl (\<lambda>v c. 10 * v + digitValue c) 0 s"

section \<open>The branches of the workflow\<close>

lemmas workflow_defs =
  HelmUndeployWorkflow_def invoked_def outcome_def returnedError_def
  ExecuteActivity_def logger_def Let_def

text \<open>
  Claim C1. When Validate returns a response with \<open>Exists = false\<close>, Validate is the
  only activity the run invokes (neither Destroy nor Verify is handed to the host), the
  outcome has \<open>Success = false\<close>, the message is \<open>Release not found\<close>, or under dry run
  the note that the release was not found and a real run would fail, and no error is
  returned.
\<close>

theorem not_found_is_terminal:
  assumes "validateResult host request = Inr validateResp"
    and "\<not> Exists validateResp"
  shows "invoked (HelmUndeployWorkflow host now request) = [''ValidateReleaseActivity'']
    \<and> \<not> HelmUndeployResponse.Success (outcome (HelmUndeployWorkflow host now request))
    \<and> HelmUndeployResponse.Message (outcome (HelmUndeployWorkflow host now request)) =
        (if DryRun request then ''DRY-RUN: Release not found (would fail if executed)''
         else ''Release not found'')
    \<and> returnedError (HelmUndeployWorkflow host now request) = None"
  using assms by (simp add: workflow_defs)

theorem not_found_is_terminal_witness:
  "validateResult (constantResults (Inr notFoundResponse) (Inr uninstalledResponse)
       (Inl ''unreachable'')) (branchRequest\<lparr>DryRun := True\<rparr>) = Inr notFoundResponse
   \<and> \<not> Exists notFoundResponse
   \<and> invoked (HelmUndeployWorkflow (constantResults (Inr notFoundResponse)
       (Inr uninstalledResponse) (Inl ''unreachable'')) 7 (branchRequest\<lparr>DryRun := True\<rparr>))
     = [''ValidateReleaseActivity'']
   \<and> HelmUndeployResponse.Message (outcome (HelmUndeployWorkflow (constantResults
       (Inr notFoundResponse) (Inr uninstalledResponse) (Inl ''unreachable'')) 7
       (branchRequest\<lparr>DryRun := True\<rparr>)))
     = ''DRY-RUN: Release not found (would fail if executed)''"
proof -
  have v: "validateResult (constantResults (Inr notFoundResponse) (Inr uninstalledResponse)
       (Inl ''unreachable'')) (branchRequest\<lparr>DryRun := True\<rparr>) = Inr notFoundResponse"
    by (simp add: constantResults_def)
  have e: "\<not> Exists notFoundResponse"
    by (simp add: notFoundResponse_def)
  have d: "DryRun (branchRequest\<lparr>DryRun := True\<rparr>)"
    by simp
  show ?thesis
    using not_found_is_terminal [OF v e, of 7] v e d by simp
qed






text \<open>
  Claim C3. In a run that reaches Destroy and gets a response from it, Verify is invoked
  exactly when the request has \<open>Wait = true\<close> and the Destroy response has
  \<open>Success = true\<close>; the outcome's \<open>Success\<close> is the Destroy response's \<open>Success\<close> and no
  error is returned, and the outcome is the same whatever Verify yields, an error
  included.
\<close>

theorem verify_never_changes_outcome:
  assumes "validateResult host request = Inr validateResp"
    and "Exists validateResp"
    and "\<not> DryRun request"
    and "undeployResult host request = Inr undeployResp"
  shows "(''VerifyUndeployActivity'' \<in> set (invoked (HelmUndeployWorkflow host now request))
          \<longleftrightarrow> Wait request \<and> UndeployReleaseResponse.Success undeployResp)
    \<and> HelmUndeployResponse.Success (outcome (HelmUndeployWorkflow host now request)) =
        UndeployReleaseResponse.Success undeployResp
    \<and> returnedError (HelmUndeployWorkflow host now request) = None
    \<and> outcome (HelmUndeployWorkflow (host\<lparr>verifyResult := verify\<rparr>) now request) =
        outcome (HelmUndeployWorkflow host now request)"
  using assms by (simp add: workflow_defs split: sum.splits)

theorem verify_never_changes_outcome_witness:
  "validateResult (constantResults (Inr deployedResponse) (Inr uninstalledResponse)
       (Inl ''unreachable'')) branchRequest = Inr deployedResponse
   \<and> Exists deployedResponse
   \<and> \<not> DryRun branchRequest
   \<and> undeployResult (constantResults (Inr deployedResponse) (Inr uninstalledResponse)
       (Inl ''unreachable'')) branchRequest = Inr uninstalledResponse
   \<and> ''VerifyUndeployActivity'' \<in> set (invoked (HelmUndeployWorkflow (constantResults
       (Inr deployedResponse) (Inr uninstalledResponse) (Inl ''unreachable'')) 7
       branchRequest))
   \<and> HelmUndeployResponse.Success (outcome (HelmUndeployWorkflow (constantResults
       (Inr deployedResponse) (Inr uninstalledResponse) (Inl ''unreachable'')) 7
       branchRequest))"
proof -
  have v: "validateResult (constantResults (Inr deployedResponse) (Inr uninstalledResponse)
       (Inl ''unreachable'')) branchRequest = Inr deployedResponse"
    by (simp add: constantResults_def)
  have e: "Exists deployedResponse"
    by (simp add: deployedResponse_def)
  have d: "\<not> DryRun branchRequest"
    by (simp add: branchRequest_def)
  have u: "undeployResult (constantResults (Inr deployedResponse) (Inr uninstalledResponse)
       (Inl ''unreachable'')) branchRequest = Inr uninstalledResponse"
    by (simp add: constantResults_def)
  have w: "Wait branchRequest \<and> UndeployReleaseResponse.Success uninstalledResponse"
    by (simp add: branchRequest_def uninstalledResponse_def)
  show ?thesis
    using verify_never_changes_outcome [OF v e d u, of 7] v e d u w by simp
qed

text \<open>
  Claim C6. When Validate fails (the host returns its error after the retries), the
  outcome has \<open>Success = false\<close>, the message is \<open>Failed to validate release:\<close> followed by
  the text of the error, and the error itself is returned to the caller; when Destroy is
  reached and fails, the same holds with \<open>Failed to undeploy release:\<close>.
\<close>

theorem activity_failure_is_propagated:
  "(validateResult host request = Inl err \<longrightarrow>
      \<not> HelmUndeployResponse.Success (outcome (HelmUndeployWorkflow host now request))
      \<and> HelmUndeployResponse.Message (outcome (HelmUndeployWorkflow host now request)) =
          ''Failed to validate release: '' @ err
      \<and> returnedError (HelmUndeployWorkflow host now request) = Some err)
   \<and> (validateResult host request = Inr validateResp \<and> Exists validateResp
        \<and> \<not> DryRun request \<and> undeployResult host request = Inl err \<longrightarrow>
      \<not> HelmUndeployResponse.Success (outcome (HelmUndeployWorkflow host now request))
      \<and> HelmUndeployResponse.Message (outcome (HelmUndeployWorkflow host now request)) =
          ''Failed to undeploy release: '' @ err
      \<and> returnedError (HelmUndeployWorkflow host now request) = Some err)"
  by (simp add: workflow_defs)

theorem activity_failure_is_propagated_witness:
  "validateResult (constantResults (Inl ''failed to list releases: timeout'')
       (Inl ''uninstall: release busy'') (Inl ''unreachable'')) branchRequest
     = Inl ''failed to list releases: timeout''
   \<and> returnedError (HelmUndeployWorkflow (constantResults
       (Inl ''failed to list releases: timeout'') (Inl ''uninstall: release busy'')
       (Inl ''unreachable'')) 7 branchRequest) = Some ''failed to list releases: timeout''
   \<and> validateResult (constantResults (Inr deployedResponse)
       (Inl ''uninstall: release busy'') (Inl ''unreachable'')) branchRequest
     = Inr deployedResponse
   \<and> Exists deployedResponse \<and> \<not> DryRun branchRequest
   \<and> undeployResult (constantResults (Inr deployedResponse)
       (Inl ''uninstall: release busy'') (Inl ''unreachable'')) branchRequest
     = Inl ''uninstall: release busy''
   \<and> HelmUndeployResponse.Message (outcome (HelmUndeployWorkflow (constantResults
       (Inr deployedResponse) (Inl ''uninstall: release busy'') (Inl ''unreachable'')) 7
       branchRequest)) = ''Failed to undeploy release: uninstall: release busy''
   \<and> returnedError (HelmUndeployWorkflow (constantResults (Inr deployedResponse)
       (Inl ''uninstall: release busy'') (Inl ''unreachable'')) 7 branchRequest)
     = Some ''uninstall: release busy''"
proof -
  have v1: "validateResult (constantResults (Inl ''failed to list releases: timeout'')
       (Inl ''uninstall: release busy'') (Inl ''unreachable'')) branchRequest
     = Inl ''failed to list releases: timeout''"
    by (simp add: constantResults_def)
  have v2: "validateResult (constantResults (Inr deployedResponse)
       (Inl ''uninstall: release busy'') (Inl ''unreachable'')) branchRequest
     = Inr deployedResponse"
    by (simp add: constantResults_def)
  have e: "Exists deployedResponse"
    by (simp add: deployedResponse_def)
  have d: "\<not> DryRun branchRequest"
    by (simp add: branchRequest_def)
  have u: "undeployResult (constantResults (Inr deployedResponse)
       (Inl ''uninstall: release busy'') (Inl ''unreachable'')) branchRequest
     = Inl ''uninstall: release busy''"
    by (simp add: constantResults_def)
  show ?thesis
    using activity_failure_is_propagated [of "constantResults
        (Inl ''failed to list releases: timeout'') (Inl ''uninstall: release busy'')
        (Inl ''unreachable'')" branchRequest "''failed to list releases: timeout''" 7]
      activity_failure_is_propagated [of "constantResults (Inr deployedResponse)
        (Inl ''uninstall: release busy'') (Inl ''unreachable'')" branchRequest
        "''uninstall: release busy''" 7 deployedResponse]
      v1 v2 e d u
    by simp
qed

section \<open>Validation by exact name\<close>

lemma rangeReleases_Exists:
  "Exists (rangeReleases releases releaseName) \<longleftrightarrow>
     (\<exists>release \<in> set releases. Name release = releaseName)"
  by (induction releases) auto

text \<open>
  Claim C10. When the deployed-release listing succeeds, the Validate activity returns a
  response without error, and the response has \<open>Exists = true\<close> exactly when the
  listing holds a release whose name equals the generated release name. A listed release
  with another name, such as \<open>my-app-2\<close> when the generated name is \<open>my-app\<close>, does
  not make \<open>Exists\<close> true.
\<close>

theorem validate_exists_iff_exact_match:
  assumes "getActionConfig a store (namespace a) = Inr actionConfig"
    and "ListRun store actionConfig (generateReleaseName request) True = Inr releases"
  shows "\<exists>resp. ValidateReleaseActivity a store request = Inr resp
    \<and> (Exists resp \<longleftrightarrow>
         (\<exists>release \<in> set releases. Name release = generateReleaseName request))"
  using assms by (simp add: ValidateReleaseActivity_def rangeReleases_Exists)

lemma generateReleaseName_mainBranchRequest:
  "generateReleaseName mainBranchRequest = ''my-app''"
  by code_simp

lemma getActionConfig_example:
  "getActionConfig exampleActivities neighbourStore (namespace exampleActivities) =
     Inr \<lparr>KubeConfig = ''/root/.kube/config'', ConfigNamespace = ''default'',
          HelmDriver = []\<rparr>"
  by (simp add: getActionConfig_def exampleActivities_def neighbourStore_def)

theorem validate_exists_iff_exact_match_witness:
  "getActionConfig exampleActivities neighbourStore (namespace exampleActivities)
     = Inr \<lparr>KubeConfig = ''/root/.kube/config'', ConfigNamespace = ''default'',
            HelmDriver = []\<rparr>
   \<and> ListRun neighbourStore \<lparr>KubeConfig = ''/root/.kube/config'',
        ConfigNamespace = ''default'', HelmDriver = []\<rparr>
        (generateReleaseName mainBranchRequest) True
     = Inr [\<lparr>Name = ''my-app-2'', InfoStatus = ''deployed'', ReleaseVersion = 1,
              LastDeployed = 1700000000\<rparr>]
   \<and> generateReleaseName mainBranchRequest = ''my-app''
   \<and> (\<exists>resp. ValidateReleaseActivity exampleActivities neighbourStore mainBranchRequest
         = Inr resp \<and> \<not> Exists resp)"
proof -
  have l: "ListRun neighbourStore \<lparr>KubeConfig = ''/root/.kube/config'',
        ConfigNamespace = ''default'', HelmDriver = []\<rparr>
        (generateReleaseName mainBranchRequest) True
     = Inr [\<lparr>Name = ''my-app-2'', InfoStatus = ''deployed'', ReleaseVersion = 1,
              LastDeployed = 1700000000\<rparr>]"
    by (simp add: neighbourStore_def)
  show ?thesis
    using validate_exists_iff_exact_match [OF getActionConfig_example l] getActionConfig_example l generateReleaseName_mainBranchRequest by simp
qed

section \<open>The retry and timeout policy\<close>

lemma every_call_has_the_workflow_options:
  "call \<in> set (history (fst (HelmUndeployWorkflow host now request))) \<Longrightarrow>
   activityOptions call =
     \<lparr>StartToCloseTimeout = 10 * Minute,
      RetryPolicy = \<lparr>InitialInterval = Second, BackoffCoefficient = 2,
                     MaximumInterval = Minute, MaximumAttempts = 3\<rparr>\<rparr>"
  by (auto simp add: workflow_defs split: sum.splits if_splits)

text \<open>
  Claim C7, as amended. Every activity the workflow hands to the host carries the
  activity options of the workflow context: exponential backoff with initial interval
  one second, coefficient 2 and maximum interval one minute. The Destroy activity runs
  with a time budget of ten minutes, whatever timeout the request carries, and at most
  three attempts; the Validate activity runs with at most three attempts.
\<close>

theorem destroy_budget_ignores_request_timeout:
  "\<forall>call \<in> set (history (fst (HelmUndeployWorkflow host now request))).
     InitialInterval (RetryPolicy (activityOptions call)) = Second
     \<and> BackoffCoefficient (RetryPolicy (activityOptions call)) = 2
     \<and> MaximumInterval (RetryPolicy (activityOptions call)) = Minute
     \<and> (activityName call = ''UndeployReleaseActivity'' \<longrightarrow>
          StartToCloseTimeout (activityOptions call) = 10 * Minute
          \<and> MaximumAttempts (RetryPolicy (activityOptions call)) = 3)
     \<and> (activityName call = ''ValidateReleaseActivity'' \<longrightarrow>
          MaximumAttempts (RetryPolicy (activityOptions call)) = 3)"
  by (simp add: every_call_has_the_workflow_options)

lemma branchRequest_fields:
  "\<not> DryRun branchRequest" "Wait branchRequest" "Timeout branchRequest = 20 * Minute"
  by (simp_all add: branchRequest_def)

lemma second_call_of_full_run:
  "history (fst (HelmUndeployWorkflow (constantResults (Inr deployedResponse)
       (Inr uninstalledResponse) (Inl ''unreachable'')) 7 branchRequest)) ! 1 =
     \<lparr>activityName = ''UndeployReleaseActivity'',
      activityOptions =
        \<lparr>StartToCloseTimeout = 10 * Minute,
         RetryPolicy = \<lparr>InitialInterval = Second, BackoffCoefficient = 2,
                        MaximumInterval = Minute, MaximumAttempts = 3\<rparr>\<rparr>,
      activityInput = branchRequest\<rparr>"
  by (simp add: workflow_defs constantResults_def deployedResponse_def
      uninstalledResponse_def branchRequest_fields)

text \<open>
  Claim C7 as stated fails: with a request timeout of twenty minutes the Destroy activity
  is still scheduled with a time budget of ten minutes, not with the larger of the two.
\<close>

theorem destroy_budget_counterexample:
  "activityName (history (fst (HelmUndeployWorkflow (constantResults (Inr deployedResponse)
       (Inr uninstalledResponse) (Inl ''unreachable'')) 7 branchRequest)) ! 1)
     = ''UndeployReleaseActivity''
   \<and> Timeout branchRequest = 20 * Minute
   \<and> StartToCloseTimeout (activityOptions (history (fst (HelmUndeployWorkflow
       (constantResults (Inr deployedResponse) (Inr uninstalledResponse)
       (Inl ''unreachable'')) 7 branchRequest)) ! 1)) = 10 * Minute
   \<and> 10 * Minute < max (10 * Minute) (Timeout branchRequest)"
  unfolding second_call_of_full_run
  by (simp add: branchRequest_fields Minute_def Second_def)

theorem destroy_budget_ignores_request_timeout_witness:
  "history (fst (HelmUndeployWorkflow (constantResults (Inr deployedResponse)
       (Inr uninstalledResponse) (Inl ''unreachable'')) 7 branchRequest)) ! 1
     \<in> set (history (fst (HelmUndeployWorkflow (constantResults (Inr deployedResponse)
       (Inr uninstalledResponse) (Inl ''unreachable'')) 7 branchRequest)))
   \<and> activityName (history (fst (HelmUndeployWorkflow (constantResults
       (Inr deployedResponse) (Inr uninstalledResponse) (Inl ''unreachable'')) 7
       branchRequest)) ! 1) = ''UndeployReleaseActivity''
   \<and> StartToCloseTimeout (activityOptions (history (fst (HelmUndeployWorkflow
       (constantResults (Inr deployedResponse) (Inr uninstalledResponse)
       (Inl ''unreachable'')) 7 branchRequest)) ! 1)) = 600000000000
   \<and> MaximumAttempts (RetryPolicy (activityOptions (history (fst (HelmUndeployWorkflow
       (constantResults (Inr deployedResponse) (Inr uninstalledResponse)
       (Inl ''unreachable'')) 7 branchRequest)) ! 1))) = 3"
proof -
  have len: "length (history (fst (HelmUndeployWorkflow (constantResults
       (Inr deployedResponse) (Inr uninstalledResponse) (Inl ''unreachable'')) 7
       branchRequest))) = 3"
    by (simp add: workflow_defs constantResults_def deployedResponse_def
        uninstalledResponse_def branchRequest_fields)
  have mem: "history (fst (HelmUndeployWorkflow (constantResults (Inr deployedResponse)
       (Inr uninstalledResponse) (Inl ''unreachable'')) 7 branchRequest)) ! 1
     \<in> set (history (fst (HelmUndeployWorkflow (constantResults (Inr deployedResponse)
       (Inr uninstalledResponse) (Inl ''unreachable'')) 7 branchRequest)))"
    by (rule nth_mem) (simp add: len)
  have name: "activityName (history (fst (HelmUndeployWorkflow (constantResults
       (Inr deployedResponse) (Inr uninstalledResponse) (Inl ''unreachable'')) 7
       branchRequest)) ! 1) = ''UndeployReleaseActivity''"
    unfolding second_call_of_full_run by simp
  from destroy_budget_ignores_request_timeout [rule_format, OF mem] name mem
  show ?thesis
    unfolding Minute_def Second_def by auto
qed

section \<open>Branch deployments\<close>

lemma hyphen_not_alnum: "\<not> isAlnum CHR ''-''"
  by (simp add: isAlnum_def)

lemma alnum_not_hyphen: "isAlnum c \<Longrightarrow> c \<noteq> CHR ''-''"
  using hyphen_not_alnum by auto

lemma ReplaceAllString_split:
  "ReplaceAllString t repl =
     takeWhile isAlnum t @ ReplaceAllString (dropWhile isAlnum t) repl"
  by (induction t) auto

lemma ReplaceAllString_head:
  "t \<noteq> [] \<Longrightarrow> isAlnum (hd t) \<Longrightarrow>
   ReplaceAllString t repl \<noteq> [] \<and> hd (ReplaceAllString t repl) = hd t"
  by (cases t) auto

lemma ReplaceAllString_bytes:
  "set (ReplaceAllString s ''-'') \<subseteq> {c. isAlnum c \<or> c = CHR ''-''}"
  by (induction s "''-''" rule: ReplaceAllString.induct) auto

lemma ToLower_input_is_ascii:
  "set (Trim (ReplaceAllString s ''-'') ''-'') \<subseteq> {c. isAlnum c \<or> c = CHR ''-''}"
proof -
  have "set (Trim x ''-'') \<subseteq> set x" for x
    unfolding Trim_def by (auto dest!: set_dropWhileD)
  with ReplaceAllString_bytes [of s] show ?thesis
    by blast
qed

lemma Trim_hyphen:
  "Trim x ''-'' = trimRight (dropWhile (\<lambda>c. c = CHR ''-'') x)"
  by (simp add: Trim_def trimRight_def)

lemma trimRight_append:
  "trimRight (a @ b) = (if \<forall>c \<in> set b. c = CHR ''-'' then trimRight a else a @ trimRight b)"
  by (simp add: trimRight_def dropWhile_append)

lemma trimRight_append_keep:
  "\<exists>c \<in> set b. c \<noteq> CHR ''-'' \<Longrightarrow> trimRight (a @ b) = a @ trimRight b"
  by (auto simp add: trimRight_append)

lemma trimRight_alnum: "\<forall>c \<in> set w. isAlnum c \<Longrightarrow> trimRight w = w"
proof (cases "w = []")
  case True
  then show ?thesis by (simp add: trimRight_def)
next
  case False
  assume a: "\<forall>c \<in> set w. isAlnum c"
  from False a have "last w \<noteq> CHR ''-''"
    using alnum_not_hyphen last_in_set by blast
  with False have "hd (rev w) \<noteq> CHR ''-''" "rev w \<noteq> []"
    by (simp_all add: hd_rev)
  then have "dropWhile (\<lambda>c. c = CHR ''-'') (rev w) = rev w"
    by (simp add: dropWhile_eq_self_iff)
  then show ?thesis by (simp add: trimRight_def)
qed

lemma trimLeft_ReplaceAllString:
  "dropWhile (\<lambda>c. c = CHR ''-'') (ReplaceAllString s ''-'') =
     ReplaceAllString (dropWhile (\<lambda>c. \<not> isAlnum c) s) ''-''"
proof -
  have start: "dropWhile (\<lambda>c. c = CHR ''-'') (ReplaceAllString t ''-'') = ReplaceAllString t ''-''"
    if "t = [] \<or> isAlnum (hd t)" for t
  proof (cases "t = []")
    case True
    then show ?thesis by simp
  next
    case False
    with that have "isAlnum (hd t)" by simp
    with False have "ReplaceAllString t ''-'' \<noteq> []"
      and "hd (ReplaceAllString t ''-'') \<noteq> CHR ''-''"
      using ReplaceAllString_head [of t "''-''"] alnum_not_hyphen by auto
    then show ?thesis by (simp add: dropWhile_eq_self_iff)
  qed
  have gap: "t = [] \<or> isAlnum (hd t)" if "t = dropWhile (\<lambda>c. \<not> isAlnum c) u" for t u
    using that hd_dropWhile [of "\<lambda>c. \<not> isAlnum c" u] by auto
  show ?thesis
  proof (cases s)
    case Nil
    then show ?thesis by simp
  next
    case (Cons c cs)
    show ?thesis
    proof (cases "isAlnum c")
      case True
      with Cons show ?thesis
        using start [of s] by simp
    next
      case False
      with Cons show ?thesis
        using start [OF gap [OF refl, of cs]] by simp
    qed
  qed
qed

lemma alnumRuns_Nil_iff:
  "alnumRuns s = [] \<longleftrightarrow> dropWhile (\<lambda>c. \<not> isAlnum c) s = []"
  by (subst alnumRuns.simps) simp

lemma trimRight_ReplaceAllString:
  "trimRight (ReplaceAllString (dropWhile (\<lambda>c. \<not> isAlnum c) s) ''-'') =
     joinWith ''-'' (alnumRuns s)"
proof (induction s rule: alnumRuns.induct)
  case (1 s)
  define t where "t = dropWhile (\<lambda>c. \<not> isAlnum c) s"
  show ?case
  proof (cases "t = []")
    case True
    then have "alnumRuns s = []"
      unfolding t_def by (simp only: alnumRuns_Nil_iff)
    with True show ?thesis
      unfolding t_def [symmetric] by (simp add: trimRight_def)
  next
    case False
    define w where "w = takeWhile isAlnum t"
    define rest where "rest = dropWhile isAlnum t"
    have w_alnum: "\<forall>c \<in> set w. isAlnum c"
      unfolding w_def by (auto dest: set_takeWhileD)
    have runs: "alnumRuns s = w # alnumRuns rest"
      using False unfolding w_def rest_def t_def by (subst alnumRuns.simps) simp
    have repl: "ReplaceAllString t ''-'' = w @ ReplaceAllString rest ''-''"
      unfolding w_def rest_def by (rule ReplaceAllString_split)
    have IH: "trimRight (ReplaceAllString (dropWhile (\<lambda>c. \<not> isAlnum c) rest) ''-'') =
        joinWith ''-'' (alnumRuns rest)"
      using "1.IH" False unfolding t_def rest_def by simp
    show ?thesis
    proof (cases "rest = []")
      case True
      then show ?thesis
        unfolding t_def [symmetric]
        by (simp add: runs repl trimRight_alnum [OF w_alnum] alnumRuns_Nil_iff [THEN iffD2])
    next
      case rest_ne: False
      then obtain c cs where rest_eq: "rest = c # cs"
        by (cases rest) auto
      have "\<not> isAlnum c"
        using hd_dropWhile [of isAlnum t] rest_ne rest_eq unfolding rest_def by simp
      define t' where "t' = dropWhile (\<lambda>c. \<not> isAlnum c) rest"
      have t'_eq: "t' = dropWhile (\<lambda>c. \<not> isAlnum c) cs"
        unfolding t'_def rest_eq using \<open>\<not> isAlnum c\<close> by simp
      have repl_rest: "ReplaceAllString rest ''-'' = ''-'' @ ReplaceAllString t' ''-''"
        unfolding rest_eq t'_eq using \<open>\<not> isAlnum c\<close> by simp
      show ?thesis
      proof (cases "t' = []")
        case True
        then have "alnumRuns rest = []"
          unfolding t'_def by (simp add: alnumRuns_Nil_iff)
        then show ?thesis
          unfolding t_def [symmetric]
          using True
          by (simp add: runs repl repl_rest trimRight_append trimRight_alnum [OF w_alnum])
      next
        case t'_ne: False
        then have "isAlnum (hd t')"
          using hd_dropWhile [of "\<lambda>c. \<not> isAlnum c" rest] unfolding t'_def by simp
        with t'_ne have head: "ReplaceAllString t' ''-'' \<noteq> []"
          "isAlnum (hd (ReplaceAllString t' ''-''))"
          using ReplaceAllString_head [of t' "''-''"] by auto
        then have not_all: "\<exists>c \<in> set (ReplaceAllString t' ''-''). c \<noteq> CHR ''-''"
          using hyphen_not_alnum hd_in_set by metis
        obtain v vs where runs_rest: "alnumRuns rest = v # vs"
          using t'_ne unfolding t'_def by (cases "alnumRuns rest") (auto simp: alnumRuns_Nil_iff)
        have inner: "trimRight (''-'' @ ReplaceAllString t' ''-'') =
            ''-'' @ trimRight (ReplaceAllString t' ''-'')"
          by (rule trimRight_append_keep [OF not_all])
        have "trimRight (w @ ''-'' @ ReplaceAllString t' ''-'') =
            w @ trimRight (''-'' @ ReplaceAllString t' ''-'')"
          using not_all by (intro trimRight_append_keep) auto
        with inner have "trimRight (ReplaceAllString t ''-'') =
            w @ ''-'' @ trimRight (ReplaceAllString t' ''-'')"
          by (simp add: repl repl_rest)
        also have "\<dots> = w @ ''-'' @ joinWith ''-'' (alnumRuns rest)"
          using IH unfolding t'_def by simp
        also have "\<dots> = joinWith ''-'' (alnumRuns s)"
          by (simp add: runs runs_rest)
        finally show ?thesis
          unfolding t_def .
      qed
    qed
  qed
qed

lemma Trim_ReplaceAllString:
  "Trim (ReplaceAllString s ''-'') ''-'' = joinWith ''-'' (alnumRuns s)"
  by (simp add: Trim_hyphen trimLeft_ReplaceAllString trimRight_ReplaceAllString)

lemma toLowerByte_hyphen: "toLowerByte CHR ''-'' = CHR ''-''"
  by (simp add: toLowerByte_def)

lemma ToLower_joinWith:
  "ToLower (joinWith ''-'' ws) = joinWith ''-'' (map ToLower ws)"
  by (induction "''-''" ws rule: joinWith.induct)
     (simp_all add: ToLower_def toLowerByte_hyphen)

lemma sanitize_specSanitize: "sanitize s = specSanitize s"
  by (simp add: sanitize_def specSanitize_def Trim_ReplaceAllString ToLower_joinWith)


lemma isAlnum_toLowerByte: "isAlnum (toLowerByte c) \<longleftrightarrow> isAlnum c"
  unfolding isAlnum_def toLowerByte_def by (auto split: if_splits)

lemma alnumRuns_single:
  assumes p: "\<forall>c \<in> set p. \<not> isAlnum c"
    and w: "\<forall>c \<in> set w. isAlnum c" "w \<noteq> []"
    and q: "\<forall>c \<in> set q. \<not> isAlnum c"
  shows "alnumRuns (p @ w @ q) = [w]"
proof -
  from w have hdw: "isAlnum (hd w)"
    by (cases w) auto
  have skip: "dropWhile (\<lambda>c. \<not> isAlnum c) (p @ w @ q) = w @ q"
    using p w hdw by (cases w) (simp_all add: dropWhile_append)
  have take: "takeWhile isAlnum (w @ q) = w"
    using w q by (cases q) (simp_all add: takeWhile_append)
  have drop: "dropWhile isAlnum (w @ q) = q"
    using w q by (cases q) (simp_all add: dropWhile_append)
  have last: "alnumRuns q = []"
    using q by (simp add: alnumRuns_Nil_iff)
  show ?thesis
    using w by (subst alnumRuns.simps) (simp add: skip take drop last)
qed

lemma sanitize_surrounded:
  assumes "\<forall>c \<in> set p. \<not> isAlnum c" and "\<forall>c \<in> set q. \<not> isAlnum c"
    and "ToLower w = ''main'' \<or> ToLower w = ''master''"
  shows "sanitize (p @ w @ q) = ToLower w"
proof -
  from assms(3) have "\<forall>c \<in> set (ToLower w). isAlnum c" "ToLower w \<noteq> []"
    by (auto simp add: isAlnum_def)
  then have "\<forall>c \<in> set w. isAlnum c" "w \<noteq> []"
    by (auto simp add: ToLower_def isAlnum_toLowerByte)
  from alnumRuns_single [OF assms(1) this assms(2)] show ?thesis
    by (simp add: sanitize_specSanitize specSanitize_def)
qed

lemma sanitize_feature: "sanitize ''feature/X_1'' = ''feature-x-1''"
  by code_simp

lemma sanitize_my_app: "sanitize ''my-app'' = ''my-app''"
  by code_simp

text \<open>
  Claim C4. The sanitization of the code (runs of bytes that are not letters or digits
  replaced by one hyphen, hyphens stripped at both ends, lower case) yields the maximal
  runs of letters and digits of the input, in lower case, joined by single hyphens.
  Without a pull-request number the release name is the sanitized repository name alone
  when the sanitized branch is \<open>main\<close> or \<open>master\<close>, and otherwise the sanitized
  repository name, a hyphen and the sanitized branch. A branch that spells main or
  master in any case, with any punctuation before and after it, gives the sanitized
  repository name alone; the repository \<open>my-app\<close> with the branch \<open>feature/X_1\<close> gives
  \<open>my-app-feature-x-1\<close>.
\<close>

theorem generateReleaseName_branch:
  "sanitize s = specSanitize s
   \<and> (PRNumber request = None \<longrightarrow>
        generateReleaseName request =
          (if specSanitize (BranchName request) = ''main''
              \<or> specSanitize (BranchName request) = ''master''
           then specSanitize (RepoName request)
           else specSanitize (RepoName request) @ ''-'' @ specSanitize (BranchName request)))
   \<and> ((\<forall>c \<in> set p. \<not> isAlnum c) \<and> (\<forall>c \<in> set q. \<not> isAlnum c)
        \<and> (ToLower w = ''main'' \<or> ToLower w = ''master'') \<longrightarrow>
        generateReleaseName (request\<lparr>BranchName := p @ w @ q, PRNumber := None\<rparr>) =
          specSanitize (RepoName request))
   \<and> generateReleaseName
        \<lparr>GitHubOrg = org, RepoName = ''my-app'', BranchName = ''feature/X_1'',
         PRNumber = None, Wait = wt, Timeout = t\<rparr> = ''my-app-feature-x-1''"
proof (intro conjI impI)
  show "sanitize s = specSanitize s"
    by (rule sanitize_specSanitize)
next
  assume "PRNumber request = None"
  then show "generateReleaseName request =
          (if specSanitize (BranchName request) = ''main''
              \<or> specSanitize (BranchName request) = ''master''
           then specSanitize (RepoName request)
           else specSanitize (RepoName request) @ ''-'' @ specSanitize (BranchName request))"
    by (simp add: generateReleaseName_def sanitize_specSanitize)
next
  assume a: "(\<forall>c \<in> set p. \<not> isAlnum c) \<and> (\<forall>c \<in> set q. \<not> isAlnum c)
        \<and> (ToLower w = ''main'' \<or> ToLower w = ''master'')"
  then have "sanitize (p @ w @ q) = ToLower w"
    by (intro sanitize_surrounded) auto
  with a show "generateReleaseName (request\<lparr>BranchName := p @ w @ q, PRNumber := None\<rparr>) =
          specSanitize (RepoName request)"
    by (auto simp add: generateReleaseName_def sanitize_specSanitize [symmetric])
next
  show "generateReleaseName
        \<lparr>GitHubOrg = org, RepoName = ''my-app'', BranchName = ''feature/X_1'',
         PRNumber = None, Wait = wt, Timeout = t\<rparr> = ''my-app-feature-x-1''"
    by (simp add: generateReleaseName_def sanitize_feature sanitize_my_app)
qed

lemma ToLower_MAIN: "ToLower ''MAIN'' = ''main''"
  by code_simp

lemma specSanitize_my_app: "specSanitize ''my-app'' = ''my-app''"
  using sanitize_my_app by (simp add: sanitize_specSanitize)

theorem generateReleaseName_branch_witness:
  "PRNumber mainBranchRequest = None
   \<and> ToLower ''MAIN'' = ''main''
   \<and> generateReleaseName (mainBranchRequest\<lparr>BranchName := ''__'' @ ''MAIN'' @ ''.'',
        PRNumber := None\<rparr>) = ''my-app''
   \<and> generateReleaseName
        \<lparr>GitHubOrg = ''acme'', RepoName = ''my-app'', BranchName = ''feature/X_1'',
         PRNumber = None, Wait = True, Timeout = 0\<rparr> = ''my-app-feature-x-1''"
proof -
  have pr: "PRNumber mainBranchRequest = None"
    by (simp add: mainBranchRequest_def)
  have repo: "RepoName mainBranchRequest = ''my-app''"
    by (simp add: mainBranchRequest_def)
  have punct: "(\<forall>c \<in> set ''__''. \<not> isAlnum c) \<and> (\<forall>c \<in> set ''.''. \<not> isAlnum c)
      \<and> (ToLower ''MAIN'' = ''main'' \<or> ToLower ''MAIN'' = ''master'')"
    by (simp add: isAlnum_def ToLower_MAIN)
  from generateReleaseName_branch [where request = mainBranchRequest and p = "''__''"
      and w = "''MAIN''" and q = "''.''" and org = "''acme''" and wt = True and t = 0]
  have surrounded: "generateReleaseName (mainBranchRequest\<lparr>BranchName := ''__'' @ ''MAIN'' @ ''.'',
        PRNumber := None\<rparr>) = specSanitize (RepoName mainBranchRequest)"
    and example: "generateReleaseName
        \<lparr>GitHubOrg = ''acme'', RepoName = ''my-app'', BranchName = ''feature/X_1'',
         PRNumber = None, Wait = True, Timeout = 0\<rparr> = ''my-app-feature-x-1''"
    using punct by blast+
  show ?thesis
    using pr surrounded example by (simp only: repo specSanitize_my_app ToLower_MAIN simp_thms)
qed

section \<open>Pull-request deployments\<close>

lemma specSanitize_My_App: "specSanitize ''My-App'' = ''my-app''"
proof -
  have "sanitize ''My-App'' = ''my-app''"
    by code_simp
  then show ?thesis
    by (simp add: sanitize_specSanitize)
qed

lemma Sprintf_d_42: "Sprintf_d 42 = ''42''"
  by (simp add: Sprintf_d_def formatNat.simps digitChar_def)

lemma digitValue_digitChar: "digitValue (digitChar n) = n mod 10"
proof -
  have "k < 10 \<Longrightarrow> digitValue (''0123456789'' ! k) = k" for k
  proof -
    assume "k < 10"
    then have "k \<in> {0, 1, 2, 3, 4, 5, 6, 7, 8, 9}"
      by auto
    then show ?thesis
      by (auto simp add: digitValue_def)
  qed
  then show ?thesis
    by (simp add: digitChar_def)
qed

lemma digitChar_is_digit: "digitChar n \<in> set ''0123456789''"
  unfolding digitChar_def by (rule nth_mem) simp

lemma decimalValue_snoc: "decimalValue (s @ [c]) = 10 * decimalValue s + digitValue c"
  by (simp add: decimalValue_def)

lemma decimalValue_formatNat: "decimalValue (formatNat n) = n"
proof (induction n rule: formatNat.induct)
  case (1 n)
  show ?case
  proof (cases "n < 10")
    case True
    then have "formatNat n = [digitChar n]"
      by (subst formatNat.simps) simp
    with True show ?thesis
      by (simp add: decimalValue_def digitValue_digitChar)
  next
    case False
    then have "formatNat n = formatNat (n div 10) @ [digitChar n]"
      by (subst formatNat.simps) simp
    with "1.IH" [OF False] show ?thesis
      by (simp add: decimalValue_snoc digitValue_digitChar)
  qed
qed

lemma formatNat_digits: "set (formatNat n) \<subseteq> set ''0123456789''"
proof (induction n rule: formatNat.induct)
  case (1 n)
  show ?case
  proof (cases "n < 10")
    case True
    then have "formatNat n = [digitChar n]"
      by (subst formatNat.simps) simp
    with digitChar_is_digit [of n] show ?thesis
      by simp
  next
    case False
    then have "formatNat n = formatNat (n div 10) @ [digitChar n]"
      by (subst formatNat.simps) simp
    with "1.IH" [OF False] digitChar_is_digit [of n] show ?thesis
      by simp
  qed
qed

lemma toLowerByte_not_upper: "toLowerByte c \<notin> set ''ABCDEFGHIJKLMNOPQRSTUVWXYZ''"
  unfolding toLowerByte_def by (auto split: if_splits)

lemma joinWith_no_upper:
  "\<forall>w \<in> set ws. set w \<inter> set ''ABCDEFGHIJKLMNOPQRSTUVWXYZ'' = {} \<Longrightarrow>
   set (joinWith ''-'' ws) \<inter> set ''ABCDEFGHIJKLMNOPQRSTUVWXYZ'' = {}"
  by (induction "''-''" ws rule: joinWith.induct) auto

lemma specSanitize_no_upper:
  "set (specSanitize s) \<inter> set ''ABCDEFGHIJKLMNOPQRSTUVWXYZ'' = {}"
proof -
  have image: "f ` A \<inter> U = {}" if "\<And>c. f c \<notin> U"
    for f :: "char \<Rightarrow> char" and A U
    using that by blast
  have lower: "set (ToLower v) \<inter> set ''ABCDEFGHIJKLMNOPQRSTUVWXYZ'' = {}" for v
    unfolding ToLower_def set_map by (rule image) (rule toLowerByte_not_upper)
  show ?thesis
    unfolding specSanitize_def
  proof (rule joinWith_no_upper, rule ballI)
    fix w
    assume "w \<in> set (map ToLower (alnumRuns s))"
    then obtain v where "w = ToLower v"
      by (auto simp only: set_map)
    then show "set w \<inter> set ''ABCDEFGHIJKLMNOPQRSTUVWXYZ'' = {}"
      by (simp only: lower)
  qed
qed

text \<open>
  Claim C5. When a pull-request number is present the release name is the sanitized
  repository name (its maximal runs of letters and digits, in lower case, joined by
  single hyphens), then \<open>-pr-\<close>, then the number in decimal, whatever the branch name
  is (also when the branch is main or master). The sanitized repository name holds no
  upper-case letter; the decimal of a number that is not negative consists of digits
  that denote it, and the decimal of a negative number is a minus sign and the decimal
  of its absolute value. The repository \<open>My-App\<close> with pull request 42 gives
  \<open>my-app-pr-42\<close>.
\<close>

theorem generateReleaseName_pr:
  "generateReleaseName (request\<lparr>PRNumber := Some n\<rparr>) =
     specSanitize (RepoName request) @ ''-pr-'' @ Sprintf_d n
   \<and> generateReleaseName (request\<lparr>BranchName := b, PRNumber := Some n\<rparr>) =
     generateReleaseName (request\<lparr>PRNumber := Some n\<rparr>)
   \<and> set (specSanitize (RepoName request)) \<inter> set ''ABCDEFGHIJKLMNOPQRSTUVWXYZ'' = {}
   \<and> (0 \<le> n \<longrightarrow>
        set (Sprintf_d n) \<subseteq> set ''0123456789'' \<and> int (decimalValue (Sprintf_d n)) = n)
   \<and> (n < 0 \<longrightarrow> Sprintf_d n = CHR ''-'' # Sprintf_d (- n))
   \<and> generateReleaseName
       \<lparr>GitHubOrg = org, RepoName = ''My-App'', BranchName = b,
        PRNumber = Some 42, Wait = w, Timeout = t\<rparr> = ''my-app-pr-42''"
proof (intro conjI impI)
  show "generateReleaseName (request\<lparr>PRNumber := Some n\<rparr>) =
     specSanitize (RepoName request) @ ''-pr-'' @ Sprintf_d n"
    by (simp add: generateReleaseName_def sanitize_specSanitize)
next
  show "generateReleaseName (request\<lparr>BranchName := b, PRNumber := Some n\<rparr>) =
     generateReleaseName (request\<lparr>PRNumber := Some n\<rparr>)"
    by (simp add: generateReleaseName_def)
next
  show "set (specSanitize (RepoName request)) \<inter> set ''ABCDEFGHIJKLMNOPQRSTUVWXYZ'' = {}"
    by (rule specSanitize_no_upper)
next
  assume "0 \<le> n"
  then show "set (Sprintf_d n) \<subseteq> set ''0123456789''"
    using formatNat_digits [of "nat n"] by (simp add: Sprintf_d_def)
next
  assume "0 \<le> n"
  then show "int (decimalValue (Sprintf_d n)) = n"
    by (simp add: Sprintf_d_def decimalValue_formatNat)
next
  assume "n < 0"
  then show "Sprintf_d n = CHR ''-'' # Sprintf_d (- n)"
    by (simp add: Sprintf_d_def)
next
  show "generateReleaseName
       \<lparr>GitHubOrg = org, RepoName = ''My-App'', BranchName = b,
        PRNumber = Some 42, Wait = w, Timeout = t\<rparr> = ''my-app-pr-42''"
    by (simp add: generateReleaseName_def sanitize_specSanitize specSanitize_My_App
        Sprintf_d_42)
qed

theorem generateReleaseName_pr_witness:
  "(0 :: int) \<le> 42
   \<and> Sprintf_d 42 = ''42''
   \<and> int (decimalValue (Sprintf_d 42)) = 42
   \<and> generateReleaseName
     \<lparr>GitHubOrg = ''acme'', RepoName = ''My-App'', BranchName = ''main'',
      PRNumber = Some 42, Wait = True, Timeout = 0\<rparr> = ''my-app-pr-42''"
proof -
  have nonneg: "(0 :: int) \<le> 42"
    by simp
  from generateReleaseName_pr [where org = "''acme''" and b = "''main''"
      and w = True and t = 0 and n = 42 and request = "\<lparr>GitHubOrg = ''acme'',
      RepoName = ''My-App'', BranchName = ''main'', PRNumber = None, Wait = True,
      Timeout = 0\<rparr>"] nonneg
  have "int (decimalValue (Sprintf_d 42)) = 42"
    and "generateReleaseName
     \<lparr>GitHubOrg = ''acme'', RepoName = ''My-App'', BranchName = ''main'',
      PRNumber = Some 42, Wait = True, Timeout = 0\<rparr> = ''my-app-pr-42''"
    by blast+
  with nonneg Sprintf_d_42 show ?thesis
    by (simp only: simp_thms)
qed

section \<open>Identifiers that sanitize to nothing\<close>

lemma Validate_is_always_first:
  "invoked (HelmUndeployWorkflow host now request) \<noteq> []
   \<and> hd (invoked (HelmUndeployWorkflow host now request)) = ''ValidateReleaseActivity''
   \<and> activityInput (hd (history (fst (HelmUndeployWorkflow host now request)))) = request"
  by (simp add: workflow_defs split: sum.splits)

lemma mainRequest_fatal_iff:
  "(\<exists>fatal. mainRequest flags = Inl fatal) \<longleftrightarrow>
     githubOrg flags = [] \<or> repoName flags = [] \<or> branchName flags = []"
  by (simp add: mainRequest_def Let_def)

text \<open>
  Claim C8, as amended. The workflow checks nothing about the identifiers: for every
  request the first thing it does is to invoke the Validate activity with that request.
  \<open>generateReleaseName\<close> builds the name with the empty component. Without a pull
  request, a repository that sanitizes to nothing gives a hyphen and the sanitized branch,
  unless the sanitized branch is main or master, when it gives the empty name; a branch
  that sanitizes to nothing gives the sanitized repository and a hyphen. With a pull
  request, a repository that sanitizes to nothing gives \<open>-pr-\<close> and the number. The one
  input check is the client's, which refuses to start a run exactly when the org, repo or
  branch flag is the empty string as given.
\<close>

theorem empty_identifier_is_not_rejected:
  "invoked (HelmUndeployWorkflow host now request) \<noteq> []
   \<and> hd (invoked (HelmUndeployWorkflow host now request)) = ''ValidateReleaseActivity''
   \<and> activityInput (hd (history (fst (HelmUndeployWorkflow host now request)))) = request
   \<and> (sanitize (RepoName request) = [] \<and> PRNumber request = None \<longrightarrow>
        generateReleaseName request =
          (if sanitize (BranchName request) = ''main''
              \<or> sanitize (BranchName request) = ''master''
           then [] else ''-'' @ sanitize (BranchName request)))
   \<and> (sanitize (BranchName request) = [] \<and> PRNumber request = None \<longrightarrow>
        generateReleaseName request = sanitize (RepoName request) @ ''-'')
   \<and> (sanitize (RepoName request) = [] \<and> PRNumber request = Some n \<longrightarrow>
        generateReleaseName request = ''-pr-'' @ Sprintf_d n)
   \<and> ((\<exists>fatal. mainRequest flags = Inl fatal) \<longleftrightarrow>
        githubOrg flags = [] \<or> repoName flags = [] \<or> branchName flags = [])"
  using Validate_is_always_first [of host now request] mainRequest_fatal_iff [of flags]
  by (simp add: generateReleaseName_def)

lemma sanitize_punctuation: "sanitize ''!!!'' = []"
  by code_simp

lemma sanitize_dev: "sanitize ''dev'' = ''dev''"
  by code_simp

lemma punctuationRequest_fields:
  "RepoName punctuationRequest = ''!!!''" "BranchName punctuationRequest = ''dev''"
  "PRNumber punctuationRequest = None" "\<not> DryRun punctuationRequest"
  "Wait punctuationRequest"
  by (simp_all add: punctuationRequest_def)

theorem empty_identifier_is_not_rejected_witness:
  "sanitize (RepoName punctuationRequest) = []
   \<and> PRNumber punctuationRequest = None
   \<and> sanitize (BranchName punctuationRequest) = ''dev''
   \<and> generateReleaseName punctuationRequest = ''-dev''"
proof -
  have a: "sanitize (RepoName punctuationRequest) = []"
    by (simp add: punctuationRequest_fields sanitize_punctuation)
  have b: "sanitize (BranchName punctuationRequest) = ''dev''"
    by (simp add: punctuationRequest_fields sanitize_dev)
  have c: "PRNumber punctuationRequest = None"
    by (simp add: punctuationRequest_fields)
  from empty_identifier_is_not_rejected [where request = punctuationRequest] a b c
  have "generateReleaseName punctuationRequest = ''-'' @ sanitize (BranchName punctuationRequest)"
    by simp
  with a b c show ?thesis
    by simp
qed

text \<open>
  Claim C8 as stated fails: the repository \<open>!!!\<close> sanitizes to nothing, the client
  accepts it, the release name is \<open>-dev\<close>, and the run invokes the Validate activity with
  it; against a store that lists no such release the run ends as an ordinary
  not-found outcome, with no error returned.
\<close>

theorem empty_identifier_counterexample:
  "sanitize (RepoName punctuationRequest) = []
   \<and> generateReleaseName punctuationRequest = ''-dev''
   \<and> mainRequest (branchFlags\<lparr>repoName := ''!!!'', branchName := ''dev''\<rparr>) =
       Inr \<lparr>GitHubOrg = ''acme'', RepoName = ''!!!'', BranchName = ''dev'',
            PRNumber = None, Wait = True, Timeout = 5 * Minute\<rparr>
   \<and> invoked (HelmUndeployWorkflow (workerResults exampleActivities emptyStore
        (Inr uninstalledResponse) (Inr verifiedResponse)) 7 punctuationRequest)
      = [''ValidateReleaseActivity'']
   \<and> HelmUndeployResponse.Message (outcome (HelmUndeployWorkflow (workerResults
        exampleActivities emptyStore (Inr uninstalledResponse) (Inr verifiedResponse)) 7
        punctuationRequest)) = ''Release not found''
   \<and> returnedError (HelmUndeployWorkflow (workerResults exampleActivities emptyStore
        (Inr uninstalledResponse) (Inr verifiedResponse)) 7 punctuationRequest) = None"
proof -
  have name: "generateReleaseName punctuationRequest = ''-dev''"
    by (simp add: generateReleaseName_def punctuationRequest_fields sanitize_punctuation
        sanitize_dev)
  have validate: "validateResult (workerResults exampleActivities emptyStore
        (Inr uninstalledResponse) (Inr verifiedResponse)) punctuationRequest =
      Inr \<lparr>Exists = False, Status = [], Version = 0, UpdatedTime = 0, ReleaseName = []\<rparr>"
    by (simp add: workerResults_def ValidateReleaseActivity_def getActionConfig_def
        exampleActivities_def emptyStore_def deliverValidate_def)
  have run: "invoked (HelmUndeployWorkflow (workerResults exampleActivities emptyStore
        (Inr uninstalledResponse) (Inr verifiedResponse)) 7 punctuationRequest)
      = [''ValidateReleaseActivity'']"
    "HelmUndeployResponse.Message (outcome (HelmUndeployWorkflow (workerResults
        exampleActivities emptyStore (Inr uninstalledResponse) (Inr verifiedResponse)) 7
        punctuationRequest)) = ''Release not found''"
    "returnedError (HelmUndeployWorkflow (workerResults exampleActivities emptyStore
        (Inr uninstalledResponse) (Inr verifiedResponse)) 7 punctuationRequest) = None"
    by (simp_all add: workflow_defs validate punctuationRequest_fields)
  have cli: "mainRequest (branchFlags\<lparr>repoName := ''!!!'', branchName := ''dev''\<rparr>) =
       Inr \<lparr>GitHubOrg = ''acme'', RepoName = ''!!!'', BranchName = ''dev'',
            PRNumber = None, Wait = True, Timeout = 5 * Minute\<rparr>"
    by (simp add: mainRequest_def branchFlags_def)
  show ?thesis
    using name run cli by (simp add: punctuationRequest_fields sanitize_punctuation)
qed

section \<open>Run keys\<close>

lemma digitChar_inj: "digitChar n = digitChar m \<Longrightarrow> n mod 10 = m mod 10"
proof -
  assume a: "digitChar n = digitChar m"
  have d: "distinct ''0123456789''"
    by simp
  have "n mod 10 < length ''0123456789''" "m mod 10 < length ''0123456789''"
    by simp_all
  with d a show ?thesis
    unfolding digitChar_def by (simp only: nth_eq_iff_index_eq)
qed

lemma digitChar_not_sign: "digitChar n \<noteq> CHR ''-''"
proof -
  have "digitChar n \<in> set ''0123456789''"
    unfolding digitChar_def by (rule nth_mem) simp
  then show ?thesis
    by auto
qed

lemma formatNat_not_Nil: "formatNat n \<noteq> []"
  by (subst formatNat.simps) simp

lemma formatNat_no_sign: "CHR ''-'' \<notin> set (formatNat n)"
proof (induction n rule: formatNat.induct)
  case (1 n)
  then show ?case
    using digitChar_not_sign [of n] by (subst formatNat.simps) auto
qed

lemma formatNat_inj: "formatNat n = formatNat m \<Longrightarrow> n = m"
proof (induction n arbitrary: m rule: formatNat.induct)
  case (1 n)
  have unfold: "formatNat k =
      (if k < 10 then [digitChar k] else formatNat (k div 10) @ [digitChar k])" for k
    by (rule formatNat.simps)
  show ?case
  proof (cases "n < 10")
    case True
    then have n: "formatNat n = [digitChar n]"
      by (simp only: unfold [of n] if_True)
    show ?thesis
    proof (cases "m < 10")
      case m: True
      then have "formatNat m = [digitChar m]"
        by (simp only: unfold [of m] if_True)
      with n "1.prems" have "digitChar n = digitChar m"
        by simp
      then have "n mod 10 = m mod 10"
        by (rule digitChar_inj)
      with True m show ?thesis
        by simp
    next
      case False
      then have "formatNat m = formatNat (m div 10) @ [digitChar m]"
        by (simp only: unfold [of m] if_False)
      with n "1.prems" have "formatNat (m div 10) = []"
        by simp
      with formatNat_not_Nil [of "m div 10"] show ?thesis
        by simp
    qed
  next
    case False
    then have n: "formatNat n = formatNat (n div 10) @ [digitChar n]"
      by (simp only: unfold [of n] if_False)
    show ?thesis
    proof (cases "m < 10")
      case True
      then have "formatNat m = [digitChar m]"
        by (simp only: unfold [of m] if_True)
      with n "1.prems" have "formatNat (n div 10) = []"
        by simp
      with formatNat_not_Nil [of "n div 10"] show ?thesis
        by simp
    next
      case m: False
      then have "formatNat m = formatNat (m div 10) @ [digitChar m]"
        by (simp only: unfold [of m] if_False)
      with n "1.prems" have front: "formatNat (n div 10) = formatNat (m div 10)"
        and final: "digitChar n = digitChar m"
        by simp_all
      from "1.IH" [OF False front] have "n div 10 = m div 10" .
      moreover from final have "n mod 10 = m mod 10"
        by (rule digitChar_inj)
      ultimately show ?thesis
        by (metis div_mult_mod_eq)
    qed
  qed
qed

lemma Sprintf_d_inj: "Sprintf_d i = Sprintf_d j \<Longrightarrow> i = j"
proof -
  assume a: "Sprintf_d i = Sprintf_d j"
  have head: "hd (formatNat n) \<noteq> CHR ''-''" for n
    using formatNat_no_sign [of n] formatNat_not_Nil [of n] hd_in_set by metis
  show ?thesis
  proof (cases "i < 0")
    case True
    show ?thesis
    proof (cases "j < 0")
      case j: True
      with True a have "nat (- i) = nat (- j)"
        by (simp add: Sprintf_d_def formatNat_inj)
      with True j show ?thesis by simp
    next
      case False
      with True a have "hd (formatNat (nat j)) = CHR ''-''"
        by (simp add: Sprintf_d_def) (metis list.sel(1))
      with head show ?thesis by simp
    qed
  next
    case False
    show ?thesis
    proof (cases "j < 0")
      case True
      with False a have "hd (formatNat (nat i)) = CHR ''-''"
        by (simp add: Sprintf_d_def)
      with head show ?thesis by simp
    next
      case j: False
      with False a have "nat i = nat j"
        by (simp add: Sprintf_d_def formatNat_inj)
      with False j show ?thesis by simp
    qed
  qed
qed

lemma StartWorkflowOptionsID_time:
  assumes "workflowID flags = []" and "t1 \<noteq> t2"
  shows "StartWorkflowOptionsID flags request t1 \<noteq> StartWorkflowOptionsID flags request t2"
proof
  assume "StartWorkflowOptionsID flags request t1 = StartWorkflowOptionsID flags request t2"
  with assms(1) have "Sprintf_d t1 = Sprintf_d t2"
    by (cases "PRNumber request") (simp_all add: StartWorkflowOptionsID_def)
  then have "t1 = t2"
    by (rule Sprintf_d_inj)
  with assms(2) show False
    by simp
qed

lemma admit_distinct:
  assumes "distinct (map fst inflight)"
  shows "distinct (map fst (admit inflight runKey request))"
proof (cases "runKey \<in> set (map fst inflight)")
  case True
  with assms show ?thesis
    by (simp only: admit_def if_True)
next
  case False
  then have "admit inflight runKey request = inflight @ [(runKey, request)]"
    by (simp only: admit_def if_False)
  with assms False show ?thesis
    by simp
qed

lemma startRun_distinct:
  "distinct (map fst inflight) \<Longrightarrow> distinct (map fst (startRun inflight flags t))"
  by (cases "mainRequest flags") (simp_all add: startRun_def admit_distinct)

lemma startRun_twice:
  assumes "mainRequest flags = Inr request" and "workflowID flags = []" and "t1 \<noteq> t2"
  shows "startRun (startRun [] flags t1) flags t2 =
            [(StartWorkflowOptionsID flags request t1, request),
             (StartWorkflowOptionsID flags request t2, request)]"
proof -
  have first: "startRun [] flags t1 = [(StartWorkflowOptionsID flags request t1, request)]"
    using assms(1) by (simp add: startRun_def admit_def)
  have "StartWorkflowOptionsID flags request t2 \<noteq> StartWorkflowOptionsID flags request t1"
    using StartWorkflowOptionsID_time [OF assms(2), of t2 t1 request] assms(3) by simp
  then show ?thesis
    unfolding first using assms(1) by (simp add: startRun_def admit_def)
qed

lemma startRun_same_id:
  assumes "workflowID flags \<noteq> []"
  shows "startRun (startRun [] flags t1) flags t2 = startRun [] flags t1"
proof (cases "mainRequest flags")
  case (Inl fatal)
  then show ?thesis
    by (simp add: startRun_def)
next
  case (Inr request)
  have key: "StartWorkflowOptionsID flags request t = workflowID flags" for t
    using assms by (simp add: StartWorkflowOptionsID_def)
  have first: "startRun [] flags t1 = [(workflowID flags, request)]"
    using Inr by (simp add: startRun_def admit_def key)
  show ?thesis
    unfolding first using Inr by (simp add: startRun_def admit_def key)
qed

text \<open>
  Claim C9, as amended. The runs in flight keep pairwise distinct run keys, but the run
  key is not derived from the resolved release identity alone: when no workflow id is
  given, the same request started at two different seconds gets two different run keys
  and both runs are admitted. A second start is deduplicated when the flags carry an
  explicit workflow id, which is then the run key of both starts.
\<close>

theorem run_key_is_not_the_identity:
  "(distinct (map fst inflight) \<longrightarrow> distinct (map fst (startRun inflight flags t)))
   \<and> (mainRequest flags = Inr request \<and> workflowID flags = [] \<and> ta \<noteq> tb \<longrightarrow>
        StartWorkflowOptionsID flags request ta \<noteq> StartWorkflowOptionsID flags request tb
        \<and> startRun (startRun [] flags ta) flags tb =
            [(StartWorkflowOptionsID flags request ta, request),
             (StartWorkflowOptionsID flags request tb, request)])
   \<and> (workflowID flags \<noteq> [] \<longrightarrow>
        startRun (startRun [] flags ta) flags tb = startRun [] flags ta)"
  using startRun_distinct startRun_twice startRun_same_id StartWorkflowOptionsID_time
  by blast


lemma mainRequest_branchFlags:
  "mainRequest branchFlags =
     Inr \<lparr>GitHubOrg = ''acme'', RepoName = ''my-app'', BranchName = ''feature/X_1'',
          PRNumber = None, Wait = True, Timeout = 5 * Minute\<rparr>"
  by (simp add: mainRequest_def branchFlags_def)

lemma StartWorkflowOptionsID_branchFlags:
  "StartWorkflowOptionsID branchFlags
     \<lparr>GitHubOrg = ''acme'', RepoName = ''my-app'', BranchName = ''feature/X_1'',
      PRNumber = None, Wait = True, Timeout = 5 * Minute\<rparr> 1700000000
     = ''helm-undeploy-acme-my-app-feature/X_1-1700000000''"
  "StartWorkflowOptionsID branchFlags
     \<lparr>GitHubOrg = ''acme'', RepoName = ''my-app'', BranchName = ''feature/X_1'',
      PRNumber = None, Wait = True, Timeout = 5 * Minute\<rparr> 1700000001
     = ''helm-undeploy-acme-my-app-feature/X_1-1700000001''"
  by (simp_all add: StartWorkflowOptionsID_def branchFlags_def Sprintf_d_def
      formatNat.simps digitChar_def)

lemma generateReleaseName_branchFlags:
  "generateReleaseName
     \<lparr>GitHubOrg = ''acme'', RepoName = ''my-app'', BranchName = ''feature/X_1'',
      PRNumber = None, Wait = True, Timeout = 5 * Minute\<rparr> = ''my-app-feature-x-1''"
  by (simp add: generateReleaseName_def sanitize_feature sanitize_my_app)

theorem run_key_is_not_the_identity_witness:
  "mainRequest branchFlags =
     Inr \<lparr>GitHubOrg = ''acme'', RepoName = ''my-app'', BranchName = ''feature/X_1'',
          PRNumber = None, Wait = True, Timeout = 5 * Minute\<rparr>
   \<and> workflowID branchFlags = []
   \<and> (1700000000 :: int) \<noteq> 1700000001
   \<and> startRun (startRun [] branchFlags 1700000000) branchFlags 1700000001 =
       [(''helm-undeploy-acme-my-app-feature/X_1-1700000000'',
         \<lparr>GitHubOrg = ''acme'', RepoName = ''my-app'', BranchName = ''feature/X_1'',
          PRNumber = None, Wait = True, Timeout = 5 * Minute\<rparr>),
        (''helm-undeploy-acme-my-app-feature/X_1-1700000001'',
         \<lparr>GitHubOrg = ''acme'', RepoName = ''my-app'', BranchName = ''feature/X_1'',
          PRNumber = None, Wait = True, Timeout = 5 * Minute\<rparr>)]"
proof -
  have id: "workflowID branchFlags = []"
    by (simp add: branchFlags_def)
  have time: "(1700000000 :: int) \<noteq> 1700000001"
    by simp
  from run_key_is_not_the_identity [where flags = branchFlags and ta = 1700000000
      and tb = 1700000001] mainRequest_branchFlags id time
  have "startRun (startRun [] branchFlags 1700000000) branchFlags 1700000001 =
      [(StartWorkflowOptionsID branchFlags
          \<lparr>GitHubOrg = ''acme'', RepoName = ''my-app'', BranchName = ''feature/X_1'',
           PRNumber = None, Wait = True, Timeout = 5 * Minute\<rparr> 1700000000,
        \<lparr>GitHubOrg = ''acme'', RepoName = ''my-app'', BranchName = ''feature/X_1'',
         PRNumber = None, Wait = True, Timeout = 5 * Minute\<rparr>),
       (StartWorkflowOptionsID branchFlags
          \<lparr>GitHubOrg = ''acme'', RepoName = ''my-app'', BranchName = ''feature/X_1'',
           PRNumber = None, Wait = True, Timeout = 5 * Minute\<rparr> 1700000001,
        \<lparr>GitHubOrg = ''acme'', RepoName = ''my-app'', BranchName = ''feature/X_1'',
         PRNumber = None, Wait = True, Timeout = 5 * Minute\<rparr>)]"
    by blast
  then show ?thesis
    using mainRequest_branchFlags id time
    by (simp only: StartWorkflowOptionsID_branchFlags simp_thms)
qed

text \<open>
  Claim C9 as stated fails: the same flags started at two consecutive seconds give two
  runs in flight, with two run keys and one release identity.
\<close>

theorem one_identity_two_runs_counterexample:
  "map fst (startRun (startRun [] branchFlags 1700000000) branchFlags 1700000001) =
     [''helm-undeploy-acme-my-app-feature/X_1-1700000000'',
      ''helm-undeploy-acme-my-app-feature/X_1-1700000001'']
   \<and> map generateReleaseName
        (map snd (startRun (startRun [] branchFlags 1700000000) branchFlags 1700000001)) =
     [''my-app-feature-x-1'', ''my-app-feature-x-1'']"
proof -
  have id: "workflowID branchFlags = []"
    by (simp add: branchFlags_def)
  have time: "(1700000000 :: int) \<noteq> 1700000001"
    by simp
  show ?thesis
    unfolding startRun_twice [OF mainRequest_branchFlags id time]
    by (simp add: StartWorkflowOptionsID_branchFlags generateReleaseName_branchFlags)
qed

end
